theory Spec2Isabelle
  imports Main "HOL-Library.AList"
begin

section \<open>Text and values\<close>

text \<open>
  A Python \<open>str\<close> is a sequence of Unicode code points, and \<open>len\<close> counts code
  points; the fixed messages of \<open>agent.py\<close> are Chinese text. A string is therefore
  modelled as a list of code points. \<open>ascii\<close> embeds an ASCII literal.
\<close>

type_synonym ustr = "nat list"

definition ascii :: "string \<Rightarrow> ustr" where
  "ascii s = map of_char s"

text \<open>
  The value \<open>json.loads\<close> returns: \<open>None\<close>, \<open>bool\<close>, \<open>int\<close>, \<open>float\<close>, \<open>str\<close>,
  \<open>list\<close> or \<open>dict\<close> (insertion-ordered, so an association list). Floats are never
  computed with; they are kept as mantissa and binary exponent.
\<close>

datatype json =
    JNull
  | JBool bool
  | JInt int
  | JFloat int int
  | JStr ustr
  | JArr "json list"
  | JObj "(ustr \<times> json) list"

text \<open>
  A raised \<open>Exception\<close>: its class name and \<open>str(e)\<close>. Only instances of \<open>Exception\<close>
  are modelled (what \<open>except Exception\<close> catches); interrupts of the process
  (\<open>KeyboardInterrupt\<close>, \<open>SystemExit\<close>) are outside the model.
\<close>

datatype py_exception = PyException (exc_class: ustr) (exc_str: ustr)

section \<open>The tool registry\<close>

text \<open>
  The handlers bound in \<open>TOOLS\<close>. Their bodies work on the file system and on the
  shell; the registry only stores which function is bound to which name.
\<close>

datatype tool_fn = Read | Write | Edit | Glob | Grep | Bash

type_synonym tool_entry = "ustr \<times> (ustr \<times> ustr) list \<times> tool_fn"

definition TOOLS :: "(ustr \<times> tool_entry) list" where
  "TOOLS =
    [(ascii ''read'',
       (ascii ''Read file with line numbers (file path, not directory)'',
        [(ascii ''path'', ascii ''string''), (ascii ''offset'', ascii ''number?''),
         (ascii ''limit'', ascii ''number?'')],
        Read)),
     (ascii ''write'',
       (ascii ''Write content to file'',
        [(ascii ''path'', ascii ''string''), (ascii ''content'', ascii ''string'')],
        Write)),
     (ascii ''edit'',
       (ascii ''Replace old with new in file (old must be unique unless all=true)'',
        [(ascii ''path'', ascii ''string''), (ascii ''old'', ascii ''string''),
         (ascii ''new'', ascii ''string''), (ascii ''all'', ascii ''boolean?'')],
        Edit)),
     (ascii ''glob'',
       (ascii ''Find files by pattern, sorted by mtime'',
        [(ascii ''pat'', ascii ''string''), (ascii ''path'', ascii ''string?'')],
        Glob)),
     (ascii ''grep'',
       (ascii ''Search files for regex pattern'',
        [(ascii ''pat'', ascii ''string''), (ascii ''path'', ascii ''string?'')],
        Grep)),
     (ascii ''bash'',
       (ascii ''Run shell command'',
        [(ascii ''cmd'', ascii ''string'')],
        Bash))]"

section \<open>The collaborators outside \<open>agent.py\<close>\<close>

text \<open>
  What a chat-completion response message carries: \<open>message.content\<close> (may be
  \<open>None\<close>) and \<open>message.tool_calls\<close> (may be \<open>None\<close> or a list); a tool call carries
  \<open>tc.id\<close>, \<open>tc.function.name\<close> and \<open>tc.function.arguments\<close>.
\<close>

record tool_call =
  call_id :: ustr
  fn_name :: ustr
  fn_arguments :: ustr

record response_message =
  content :: "ustr option"
  tool_calls :: "tool_call list option"

text \<open>The dictionaries appended to \<open>self.messages\<close>, and the system message sent first.\<close>

datatype message =
    SystemMsg ustr
  | UserMsg ustr
  | AssistantMsg "ustr option"
  | AssistantCalls "ustr option" "tool_call list"
  | ToolMsg ustr ustr

text \<open>
  One entry of \<open>build_openai_tools()\<close>:
  \<open>{"type": ty, "function": {"name", "description", "parameters": {"type": params_ty,
  "properties", "required"}}}\<close>; a property is \<open>{"type": t}\<close>.
\<close>

record openai_tool =
  ty :: ustr
  name :: ustr
  description :: ustr
  params_ty :: ustr
  properties :: "(ustr \<times> ustr) list"
  required :: "ustr list"

record request =
  req_model :: ustr
  req_messages :: "message list"
  req_tools :: "openai_tool list"
  req_tool_choice :: ustr

text \<open>What the program prints: the data formatted into each line.\<close>

datatype console_line =
    RoundBanner nat
  | ToolCallLine ustr json
  | ResultLine ustr
  | HistoryCleared

text \<open>
  The three ways \<open>json.loads\<close> ends on a \<open>str\<close>: with the value, with
  \<open>json.JSONDecodeError\<close>, or with another exception (\<open>ValueError\<close> for an integer
  literal beyond the digit limit, \<open>RecursionError\<close> for nesting beyond the recursion
  limit). The last is not an instance of \<open>JSONDecodeError\<close>.
\<close>

datatype loads_outcome =
    Loaded json
  | JSONDecodeError
  | OtherError py_exception

text \<open>
  The environment, over a state \<open>'w\<close> of everything outside the agent object (the
  endpoint, the file system, the shell, the console):
  \<^item> \<open>model_call\<close> is \<open>client.chat.completions.create(...)\<close> followed by
    \<open>response.choices[0].message\<close>; it returns the message or raises;
  \<^item> \<open>json_loads\<close> is \<open>json.loads\<close> on a \<open>str\<close>;
  \<^item> \<open>call_handler f args\<close> is \<open>func(**arguments)\<close> for the bound function \<open>f\<close>:
    binding the arguments and running the body; it returns text or raises;
  \<^item> \<open>print_line\<close> is a call of \<open>print\<close>, formatting of the line included; it
    returns \<open>None\<close>, or the exception raised (\<open>UnicodeEncodeError\<close> when the encoding
    of the stream lacks a character of the line, \<open>OSError\<close> on a closed stream).
\<close>

record 'w env =
  model_call :: "request \<Rightarrow> 'w \<Rightarrow> (py_exception + response_message) \<times> 'w"
  json_loads :: "ustr \<Rightarrow> loads_outcome"
  call_handler :: "tool_fn \<Rightarrow> json \<Rightarrow> 'w \<Rightarrow> (py_exception + ustr) \<times> 'w"
  print_line :: "console_line \<Rightarrow> 'w \<Rightarrow> py_exception option \<times> 'w"

section \<open>Dispatch: \<open>execute_tool\<close>\<close>

definition unknown_tool_prefix :: ustr where
  "unknown_tool_prefix = [38169, 35823, 58, 32, 26410, 30693, 24037, 20855, 32]"

definition tool_error_prefix :: ustr where
  "tool_error_prefix = [24037, 20855, 25191, 34892, 38169, 35823, 58, 32]"

definition execute_tool :: "'w env \<Rightarrow> ustr \<Rightarrow> json \<Rightarrow> 'w \<Rightarrow> ustr \<times> 'w" where
  "execute_tool env nm arguments w =
     (case map_of TOOLS nm of
        None \<Rightarrow> (unknown_tool_prefix @ nm, w)
      | Some (_, _, func) \<Rightarrow>
          (case call_handler env func arguments w of
             (Inr text, w') \<Rightarrow> (text, w')
           | (Inl e, w') \<Rightarrow> (tool_error_prefix @ exc_str e, w')))"

section \<open>The agent\<close>

text \<open>The calls made to the endpoint and the lines printed, in order.\<close>

datatype event = ModelCall request | Print console_line

text \<open>
  The fields of the \<open>ToolAgent\<close> object that \<open>chat\<close> uses, together with the state
  of the outside world and the record of what the agent has done to it.
\<close>

record 'w agent =
  model :: ustr
  system_prompt :: ustr
  tools :: "openai_tool list"
  messages :: "message list"
  world :: 'w
  trace :: "event list"

text \<open>
  \<open>clear_history\<close> assigns the empty list and then prints: the history is empty
  whether the print succeeds or not. The line is recorded on the trace.
\<close>

definition clear_history :: "'w agent \<Rightarrow> 'w agent" where
  "clear_history self = self\<lparr>messages := [], trace := trace self @ [Print HistoryCleared]\<rparr>"

subsection \<open>\<open>ToolAgent.chat\<close>\<close>

definition max_iterations :: nat where
  "max_iterations = 10"

definition iteration_limit_message :: ustr where
  "iteration_limit_message =
     [36798, 21040, 26368, 22823, 36845, 20195, 27425, 25968, 65292,
      35831, 31616, 21270, 24744, 30340, 35831, 27714, 12290]"

text \<open>
  A step of \<open>chat\<close> either leaves \<open>chat\<close> (by \<open>return\<close>, or by an exception, which
  nothing in \<open>chat\<close> catches), or it goes on to the next statement. \<open>then_step\<close>
  puts two steps in sequence.
\<close>

datatype 'w step =
    Exit "py_exception + ustr option" "'w agent"
  | Next "'w agent"

fun then_step :: "'w step \<Rightarrow> ('w agent \<Rightarrow> 'w step) \<Rightarrow> 'w step" where
  "then_step (Exit r self) f = Exit r self"
| "then_step (Next self) f = f self"

text \<open>A \<open>print\<close> statement of \<open>chat\<close>: none of them is inside a \<open>try\<close>.\<close>

definition py_print :: "'w env \<Rightarrow> console_line \<Rightarrow> 'w agent \<Rightarrow> 'w step" where
  "py_print env line self =
     (case print_line env line (world self) of
        (None, w) \<Rightarrow> Next (self\<lparr>world := w, trace := trace self @ [Print line]\<rparr>)
      | (Some e, w) \<Rightarrow> Exit (Inl e) (self\<lparr>world := w\<rparr>))"

text \<open>
  Lines 361 to 364: \<open>json.loads\<close>, with \<open>{}\<close> on \<open>JSONDecodeError\<close>. Any other
  exception of \<open>json.loads\<close> is not caught.
\<close>

definition parse_tool_args :: "'w env \<Rightarrow> tool_call \<Rightarrow> py_exception + json" where
  "parse_tool_args env tool_call =
     (case json_loads env (fn_arguments tool_call) of
        Loaded v \<Rightarrow> Inr v
      | JSONDecodeError \<Rightarrow> Inr (JObj [])
      | OtherError e \<Rightarrow> Inl e)"

text \<open>Line 374: \<open>result[:500] + "..." if len(result) > 500 else result\<close>.\<close>

definition display_result :: "ustr \<Rightarrow> ustr" where
  "display_result result =
     (if length result > 500 then take 500 result @ ascii ''...'' else result)"

text \<open>The body of the loop over \<open>message.tool_calls\<close> (lines 359 to 380).\<close>

definition run_tool_call :: "'w env \<Rightarrow> tool_call \<Rightarrow> 'w agent \<Rightarrow> 'w step" where
  "run_tool_call env tool_call self =
     (let tool_name = fn_name tool_call
      in case parse_tool_args env tool_call of
           Inl e \<Rightarrow> Exit (Inl e) self
         | Inr tool_args \<Rightarrow>
             then_step (py_print env (ToolCallLine tool_name tool_args) self) (\<lambda>self1.
               let (result, w) = execute_tool env tool_name tool_args (world self1);
                   self2 = self1\<lparr>world := w\<rparr>
               in then_step (py_print env (ResultLine (display_result result)) self2) (\<lambda>self3.
                    Next (self3\<lparr>messages := messages self3
                                         @ [ToolMsg (call_id tool_call) result]\<rparr>))))"

fun run_tool_calls :: "'w env \<Rightarrow> tool_call list \<Rightarrow> 'w agent \<Rightarrow> 'w step" where
  "run_tool_calls env [] self = Next self"
| "run_tool_calls env (tool_call # rest) self =
     then_step (run_tool_call env tool_call self) (run_tool_calls env rest)"

definition chat_request :: "'w agent \<Rightarrow> request" where
  "chat_request self =
     \<lparr>req_model = model self,
      req_messages = SystemMsg (system_prompt self) # messages self,
      req_tools = tools self,
      req_tool_choice = ascii ''auto''\<rparr>"

text \<open>One pass through the body of \<open>for iteration in range(max_iterations)\<close>.\<close>

definition chat_body :: "'w env \<Rightarrow> nat \<Rightarrow> 'w agent \<Rightarrow> 'w step" where
  "chat_body env iteration self =
     (let req = chat_request self;
          (response, w) = model_call env req (world self);
          self1 = self\<lparr>world := w, trace := trace self @ [ModelCall req]\<rparr>
      in case response of
           Inl e \<Rightarrow> Exit (Inl e) self1
         | Inr message \<Rightarrow>
             (case tool_calls message of
                None \<Rightarrow>
                  Exit (Inr (content message))
                    (self1\<lparr>messages := messages self1 @ [AssistantMsg (content message)]\<rparr>)
              | Some [] \<Rightarrow>
                  Exit (Inr (content message))
                    (self1\<lparr>messages := messages self1 @ [AssistantMsg (content message)]\<rparr>)
              | Some (tc # tcs) \<Rightarrow>
                  then_step (py_print env (RoundBanner (iteration + 1)) self1) (\<lambda>self2.
                    run_tool_calls env (tc # tcs)
                      (self2\<lparr>messages := messages self2
                                       @ [AssistantCalls (content message) (tc # tcs)]\<rparr>))))"

fun chat_for :: "'w env \<Rightarrow> nat list \<Rightarrow> 'w agent \<Rightarrow> (py_exception + ustr option) \<times> 'w agent" where
  "chat_for env [] self = (Inr (Some iteration_limit_message), self)"
| "chat_for env (iteration # rest) self =
     (case chat_body env iteration self of
        Exit r self' \<Rightarrow> (r, self')
      | Next self' \<Rightarrow> chat_for env rest self')"

definition chat :: "'w env \<Rightarrow> ustr \<Rightarrow> 'w agent \<Rightarrow> (py_exception + ustr option) \<times> 'w agent" where
  "chat env user_input self =
     chat_for env [0..<max_iterations] (self\<lparr>messages := messages self @ [UserMsg user_input]\<rparr>)"

text \<open>
  The run falls out of the \<open>for\<close> loop: no pass through the body leaves \<open>chat\<close>.
\<close>

fun exhausts :: "'w env \<Rightarrow> nat list \<Rightarrow> 'w agent \<Rightarrow> bool" where
  "exhausts env [] self = True"
| "exhausts env (iteration # rest) self =
     (case chat_body env iteration self of
        Exit r self' \<Rightarrow> False
      | Next self' \<Rightarrow> exhausts env rest self')"

text \<open>
  The response to the request of the coming pass carries at least one tool call; and
  this holds at every pass of the turn, each pass starting from the state the
  previous one left.
\<close>

definition response_has_tool_calls :: "'w env \<Rightarrow> 'w agent \<Rightarrow> bool" where
  "response_has_tool_calls env self =
     (case fst (model_call env (chat_request self) (world self)) of
        Inl e \<Rightarrow> False
      | Inr message \<Rightarrow>
          (case tool_calls message of None \<Rightarrow> False | Some tcs \<Rightarrow> tcs \<noteq> []))"

fun every_response_has_tool_calls :: "'w env \<Rightarrow> nat list \<Rightarrow> 'w agent \<Rightarrow> bool" where
  "every_response_has_tool_calls env [] self = True"
| "every_response_has_tool_calls env (iteration # rest) self =
     (response_has_tool_calls env self
      \<and> (case chat_body env iteration self of
           Exit r self' \<Rightarrow> True
         | Next self' \<Rightarrow> every_response_has_tool_calls env rest self'))"

definition is_model_call :: "event \<Rightarrow> bool" where
  "is_model_call ev = (case ev of ModelCall _ \<Rightarrow> True | Print _ \<Rightarrow> False)"

text \<open>The tool-result messages for a list of calls and their results, in order.\<close>

definition tool_results :: "tool_call list \<Rightarrow> ustr list \<Rightarrow> message list" where
  "tool_results tcs rs = map (\<lambda>(tc, r). ToolMsg (call_id tc) r) (zip tcs rs)"

text \<open>
  What one round of tool calls appends: the assistant message with its requests, then
  one tool-result message for each request.
\<close>

definition is_round :: "message list \<Rightarrow> bool" where
  "is_round ms =
     (\<exists>c tcs rs. tcs \<noteq> [] \<and> length rs = length tcs
        \<and> ms = AssistantCalls c tcs # tool_results tcs rs)"

text \<open>
  \<open>calls\<close> reads, from the state of the world, how many requests the endpoint has
  served: each call of the endpoint adds one, and nothing else changes it.
\<close>

definition counts_model_calls :: "'w env \<Rightarrow> ('w \<Rightarrow> nat) \<Rightarrow> bool" where
  "counts_model_calls env calls =
     ((\<forall>req w. calls (snd (model_call env req w)) = Suc (calls w))
      \<and> (\<forall>func arguments w. calls (snd (call_handler env func arguments w)) = calls w)
      \<and> (\<forall>line w. calls (snd (print_line env line w)) = calls w))"

section \<open>Schema export: \<open>build_openai_tools\<close>\<close>

definition endswith_qmark :: "ustr \<Rightarrow> bool" where
  "endswith_qmark s = (s \<noteq> [] \<and> last s = 63)"

text \<open>
  The body of the loop over \<open>params.items()\<close>, on the pair \<open>(properties, required)\<close>.
  \<open>properties[k] = v\<close> on an insertion-ordered dictionary is \<open>AList.update\<close>.
\<close>

definition add_param ::
  "(ustr \<times> ustr) list \<times> ustr list \<Rightarrow> ustr \<times> ustr \<Rightarrow> (ustr \<times> ustr) list \<times> ustr list" where
  "add_param acc p =
     (case (acc, p) of ((props, req), (param_name, param_type)) \<Rightarrow>
        (let (param_type', req') =
               (if endswith_qmark param_type then (butlast param_type, req)
                else (param_type, req @ [param_name]))
         in (if param_type' = ascii ''string''
               then AList.update param_name (ascii ''string'') props
             else if param_type' = ascii ''number''
               then AList.update param_name (ascii ''number'') props
             else if param_type' = ascii ''boolean''
               then AList.update param_name (ascii ''boolean'') props
             else props,
             req')))"

definition build_tool :: "ustr \<times> tool_entry \<Rightarrow> openai_tool" where
  "build_tool entry =
     (case entry of (nm, (descr, params, _)) \<Rightarrow>
        (let (props, req) = foldl add_param ([], []) params
         in \<lparr>ty = ascii ''function'', name = nm, description = descr,
             params_ty = ascii ''object'', properties = props, required = req\<rparr>))"

definition build_openai_tools :: "openai_tool list" where
  "build_openai_tools = map build_tool TOOLS"

section \<open>The \<open>read\<close> tool\<close>

text \<open>
  \<open>str.rstrip()\<close> removes the trailing characters for which \<open>str.isspace\<close> holds.
\<close>

definition py_isspace :: "nat \<Rightarrow> bool" where
  "py_isspace c =
     (c \<in> set [9, 10, 11, 12, 13, 28, 29, 30, 31, 32, 133, 160, 5760, 8192, 8193, 8194,
               8195, 8196, 8197, 8198, 8199, 8200, 8201, 8202, 8232, 8233, 8239, 8287,
               12288])"

definition rstrip :: "ustr \<Rightarrow> ustr" where
  "rstrip s = rev (dropWhile py_isspace (rev s))"

fun digits :: "nat \<Rightarrow> ustr" where
  "digits n = (if n < 10 then [48 + n] else digits (n div 10) @ [48 + n mod 10])"

declare digits.simps [simp del]

definition str_int :: "int \<Rightarrow> ustr" where
  "str_int i = (if i < 0 then 45 # digits (nat (- i)) else digits (nat i))"

text \<open>The format \<open>{i:4d}\<close>: decimal, right-aligned with spaces to width 4.\<close>

definition format_4d :: "int \<Rightarrow> ustr" where
  "format_4d i = (let s = str_int i in replicate (4 - length s) 32 @ s)"

text \<open>\<open>xs[start:end]\<close> for integers: a negative index counts from the end.\<close>

definition py_slice :: "'a list \<Rightarrow> int \<Rightarrow> int \<Rightarrow> 'a list" where
  "py_slice xs start end =
     (let n = int (length xs);
          lo = (if start < 0 then max 0 (start + n) else min start n);
          hi = (if end < 0 then max 0 (end + n) else min end n)
      in take (nat hi - nat lo) (drop (nat lo) xs))"

fun py_enumerate :: "int \<Rightarrow> 'a list \<Rightarrow> (int \<times> 'a) list" where
  "py_enumerate i [] = []"
| "py_enumerate i (x # xs) = (i, x) # py_enumerate (i + 1) xs"

fun py_join :: "ustr \<Rightarrow> ustr list \<Rightarrow> ustr" where
  "py_join sep [] = []"
| "py_join sep [x] = x"
| "py_join sep (x # y # ys) = x @ sep @ py_join sep (y # ys)"

definition read_error_prefix :: ustr where
  "read_error_prefix = [38169, 35823, 58, 32]"

definition empty_file_message :: ustr where
  "empty_file_message = [40, 31354, 25991, 20214, 41]"

text \<open>Lines 57 to 63: the lines kept and the number of the first of them.\<close>

definition read_window :: "ustr list \<Rightarrow> int option \<Rightarrow> int option \<Rightarrow> ustr list \<times> int" where
  "read_window lines offset limit =
     (case offset of
        Some off \<Rightarrow>
          (let start = max 0 (off - 1);
               end = (case limit of
                        None \<Rightarrow> int (length lines)
                      | Some l \<Rightarrow> min (int (length lines)) (start + l))
           in (py_slice lines start end, start + 1))
      | None \<Rightarrow> (lines, 1))"

text \<open>Lines 65 to 68.\<close>

definition numbered :: "int \<Rightarrow> ustr list \<Rightarrow> ustr" where
  "numbered line_num_start lines =
     (let result = map (\<lambda>(i, line). format_4d i @ ascii '' | '' @ rstrip line)
                       (py_enumerate line_num_start lines)
      in if result \<noteq> [] then py_join [10] result else empty_file_message)"

text \<open>
  \<open>read(path, offset, limit)\<close>. \<open>readlines path\<close> is \<open>open(path, "r",
  encoding="utf-8")\<close> followed by \<open>f.readlines()\<close>: the lines of the file, or the
  exception raised. \<open>offset\<close> and \<open>limit\<close> are \<open>int\<close> or \<open>None\<close>, as annotated.
\<close>

definition read ::
  "(ustr \<Rightarrow> py_exception + ustr list) \<Rightarrow> ustr \<Rightarrow> int option \<Rightarrow> int option \<Rightarrow> ustr" where
  "read readlines path offset limit =
     (case readlines path of
        Inl e \<Rightarrow> read_error_prefix @ exc_str e
      | Inr lines \<Rightarrow>
          (let (lines', line_num_start) = read_window lines offset limit
           in numbered line_num_start lines'))"

section \<open>Sample collaborators\<close>

text \<open>
  Concrete collaborators on which the general results below are instantiated. The
  world is the number of requests the endpoint has served. \<open>sample_loads\<close> answers as
  \<open>json.loads\<close> does on the three payloads used: \<open>{}\<close> is the empty dictionary, \<open>5\<close>
  is the integer 5, and \<open>oops\<close> is not JSON. \<open>sample_handler\<close> raises \<open>TypeError\<close> as
  \<open>func(**arguments)\<close> does when \<open>arguments\<close> is not a mapping or lacks a required
  parameter (every tool of \<open>TOOLS\<close> has one), with the messages shortened. The
  endpoint \<open>sample_model\<close> asks for the same two tool calls in every response, and
  \<open>sample_print\<close> is a console that takes every line. The handler of \<open>long_env\<close>
  returns a text of 501 characters.
\<close>

definition sample_loads :: "ustr \<Rightarrow> loads_outcome" where
  "sample_loads s =
     (if s = ascii ''{}'' then Loaded (JObj [])
      else if s = ascii ''5'' then Loaded (JInt 5)
      else JSONDecodeError)"

definition sample_handler :: "tool_fn \<Rightarrow> json \<Rightarrow> nat \<Rightarrow> (py_exception + ustr) \<times> nat" where
  "sample_handler func arguments w =
     (case arguments of
        JObj kvs \<Rightarrow>
          (if kvs = []
           then (Inl (PyException (ascii ''TypeError'')
                        (ascii ''missing 1 required positional argument'')), w)
           else (Inr (ascii ''done''), w))
      | _ \<Rightarrow> (Inl (PyException (ascii ''TypeError'')
                     (ascii ''argument after ** must be a mapping'')), w))"

definition sample_calls :: "tool_call list" where
  "sample_calls =
     [\<lparr>call_id = ascii ''call_a'', fn_name = ascii ''bash'', fn_arguments = ascii ''oops''\<rparr>,
      \<lparr>call_id = ascii ''call_b'', fn_name = ascii ''delete_universe'',
        fn_arguments = ascii ''{}''\<rparr>]"

definition sample_model :: "request \<Rightarrow> nat \<Rightarrow> (py_exception + response_message) \<times> nat" where
  "sample_model req w = (Inr \<lparr>content = None, tool_calls = Some sample_calls\<rparr>, Suc w)"

definition sample_print :: "console_line \<Rightarrow> nat \<Rightarrow> py_exception option \<times> nat" where
  "sample_print line w = (None, w)"

definition sample_env :: "nat env" where
  "sample_env = \<lparr>model_call = sample_model, json_loads = sample_loads,
                 call_handler = sample_handler, print_line = sample_print\<rparr>"

definition sample_agent :: "nat agent" where
  "sample_agent = \<lparr>model = ascii ''gpt-4o-mini'', system_prompt = ascii ''sys'',
                   tools = build_openai_tools, messages = [], world = 0, trace = []\<rparr>"

definition number_call :: tool_call where
  "number_call = \<lparr>call_id = ascii ''call_5'', fn_name = ascii ''bash'', fn_arguments = ascii ''5''\<rparr>"

definition long_env :: "nat env" where
  "long_env = \<lparr>model_call = sample_model, json_loads = sample_loads,
               call_handler = (\<lambda>func arguments w. (Inr (replicate 501 120), w)),
               print_line = sample_print\<rparr>"

text \<open>
  A payload of 100000 opening brackets: \<open>json.loads\<close> raises \<open>RecursionError\<close> on it.
  The endpoint \<open>deep_model\<close> sends it as the arguments of the first of two tool calls.
\<close>

definition deep_payload :: ustr where
  "deep_payload = replicate 100000 91"

definition recursion_error :: py_exception where
  "recursion_error =
     PyException (ascii ''RecursionError'')
       (ascii ''maximum recursion depth exceeded while decoding a JSON array'')"

definition deep_loads :: "ustr \<Rightarrow> loads_outcome" where
  "deep_loads s = (if s = deep_payload then OtherError recursion_error else sample_loads s)"

definition deep_calls :: "tool_call list" where
  "deep_calls =
     [\<lparr>call_id = ascii ''call_a'', fn_name = ascii ''bash'', fn_arguments = deep_payload\<rparr>,
      \<lparr>call_id = ascii ''call_b'', fn_name = ascii ''delete_universe'',
        fn_arguments = ascii ''{}''\<rparr>]"

definition deep_model :: "request \<Rightarrow> nat \<Rightarrow> (py_exception + response_message) \<times> nat" where
  "deep_model req w = (Inr \<lparr>content = None, tool_calls = Some deep_calls\<rparr>, Suc w)"

definition deep_env :: "nat env" where
  "deep_env = \<lparr>model_call = deep_model, json_loads = deep_loads,
               call_handler = sample_handler, print_line = sample_print\<rparr>"

text \<open>
  A console whose encoding has no emoji: the lines of 366 to 368 and of 375 begin
  with one, and printing them raises \<open>UnicodeEncodeError\<close>; the banner of line 337
  and the line of \<open>clear_history\<close> are printed.
\<close>

definition encode_error :: py_exception where
  "encode_error =
     PyException (ascii ''UnicodeEncodeError'') (ascii ''codec cannot encode character'')"

definition plain_print :: "console_line \<Rightarrow> nat \<Rightarrow> py_exception option \<times> nat" where
  "plain_print line w =
     (case line of
        RoundBanner n \<Rightarrow> (None, w)
      | ToolCallLine nm arguments \<Rightarrow> (Some encode_error, w)
      | ResultLine r \<Rightarrow> (Some encode_error, w)
      | HistoryCleared \<Rightarrow> (None, w))"

definition plain_env :: "nat env" where
  "plain_env = \<lparr>model_call = sample_model, json_loads = sample_loads,
                call_handler = sample_handler, print_line = plain_print\<rparr>"

text \<open>
  A file of three lines, the last without a newline, as \<open>readlines\<close> returns it;
  any other path does not exist.
\<close>

definition sample_lines :: "ustr list" where
  "sample_lines = [ascii ''alpha'' @ [10], ascii ''beta  '' @ [10], ascii ''gamma'']"

definition sample_readlines :: "ustr \<Rightarrow> py_exception + ustr list" where
  "sample_readlines path =
     (if path = ascii ''notes.txt''
      then Inr sample_lines
      else Inl (PyException (ascii ''FileNotFoundError'')
                  (ascii ''[Errno 2] No such file or directory'')))"

section \<open>Lemmas on the loop\<close>

lemma py_print_Next:
  assumes "py_print env line self = Next self'"
  shows "self' = self\<lparr>world := snd (print_line env line (world self)),
                        trace := trace self @ [Print line]\<rparr>"
  using assms by (auto simp: py_print_def split: prod.splits option.splits)

lemma py_print_Exit:
  assumes "py_print env line self = Exit r self'"
  shows "(\<exists>e. r = Inl e) \<and> messages self' = messages self \<and> trace self' = trace self"
  using assms by (auto simp: py_print_def split: prod.splits option.splits)

lemma then_step_Next:
  assumes "then_step s f = Next self'"
  shows "\<exists>self1. s = Next self1 \<and> f self1 = Next self'"
  using assms by (cases s) simp_all

lemma then_step_Exit:
  assumes "then_step s f = Exit r self'"
  shows "s = Exit r self' \<or> (\<exists>self1. s = Next self1 \<and> f self1 = Exit r self')"
  using assms by (cases s) simp_all

text \<open>The tool call, once the arguments are there.\<close>

lemma run_tool_call_Inr:
  assumes "parse_tool_args env tc = Inr args"
  shows "run_tool_call env tc self =
     then_step (py_print env (ToolCallLine (fn_name tc) args) self) (\<lambda>self1.
       then_step
         (py_print env
            (ResultLine (display_result (fst (execute_tool env (fn_name tc) args (world self1)))))
            (self1\<lparr>world := snd (execute_tool env (fn_name tc) args (world self1))\<rparr>))
         (\<lambda>self3. Next (self3\<lparr>messages := messages self3
             @ [ToolMsg (call_id tc) (fst (execute_tool env (fn_name tc) args (world self1)))]\<rparr>)))"
  using assms by (simp add: run_tool_call_def Let_def case_prod_beta)

text \<open>A tool call that runs to its end.\<close>

lemma run_tool_call_Next:
  assumes "run_tool_call env tc self = Next self'"
  shows "\<exists>args result.
           parse_tool_args env tc = Inr args
           \<and> result = fst (execute_tool env (fn_name tc) args
                             (snd (print_line env (ToolCallLine (fn_name tc) args) (world self))))
           \<and> messages self' = messages self @ [ToolMsg (call_id tc) result]
           \<and> trace self' = trace self @ [Print (ToolCallLine (fn_name tc) args),
                                          Print (ResultLine (display_result result))]
           \<and> system_prompt self' = system_prompt self"
proof -
  from assms obtain args where args: "parse_tool_args env tc = Inr args"
    by (cases "parse_tool_args env tc") (simp_all add: run_tool_call_def)
  let ?line = "ToolCallLine (fn_name tc) args"
  from then_step_Next [OF assms [unfolded run_tool_call_Inr [OF args]]] obtain self1 where
    p1: "py_print env ?line self = Next self1"
    and rest: "then_step
         (py_print env
            (ResultLine (display_result (fst (execute_tool env (fn_name tc) args (world self1)))))
            (self1\<lparr>world := snd (execute_tool env (fn_name tc) args (world self1))\<rparr>))
         (\<lambda>self3. Next (self3\<lparr>messages := messages self3
             @ [ToolMsg (call_id tc) (fst (execute_tool env (fn_name tc) args (world self1)))]\<rparr>))
       = Next self'"
    by blast
  let ?result = "fst (execute_tool env (fn_name tc) args (world self1))"
  from then_step_Next [OF rest] obtain self3 where
    p2: "py_print env (ResultLine (display_result ?result))
           (self1\<lparr>world := snd (execute_tool env (fn_name tc) args (world self1))\<rparr>)
         = Next self3"
    and fin: "self' = self3\<lparr>messages := messages self3 @ [ToolMsg (call_id tc) ?result]\<rparr>"
    by auto
  from py_print_Next [OF p1] have s1: "self1 = self\<lparr>world := snd (print_line env ?line (world self)),
                        trace := trace self @ [Print ?line]\<rparr>" .
  then have w1: "world self1 = snd (print_line env ?line (world self))"
    by simp
  from py_print_Next [OF p2] s1 fin have
    "messages self' = messages self @ [ToolMsg (call_id tc) ?result]"
    "trace self' = trace self @ [Print ?line, Print (ResultLine (display_result ?result))]"
    "system_prompt self' = system_prompt self"
    by simp_all
  with args show ?thesis
    unfolding w1 by blast
qed

text \<open>A tool call that is left by an exception appends no message.\<close>

lemma run_tool_call_Exit:
  assumes "run_tool_call env tc self = Exit r self'"
  shows "(\<exists>e. r = Inl e) \<and> messages self' = messages self"
proof (cases "parse_tool_args env tc")
  case (Inl e)
  with assms show ?thesis
    by (auto simp: run_tool_call_def)
next
  case (Inr args)
  let ?line = "ToolCallLine (fn_name tc) args"
  from then_step_Exit [OF assms [unfolded run_tool_call_Inr [OF Inr]]] show ?thesis
  proof
    assume "py_print env ?line self = Exit r self'"
    from py_print_Exit [OF this] show ?thesis by simp
  next
    assume "\<exists>self1. py_print env ?line self = Next self1 \<and>
      then_step
         (py_print env
            (ResultLine (display_result (fst (execute_tool env (fn_name tc) args (world self1)))))
            (self1\<lparr>world := snd (execute_tool env (fn_name tc) args (world self1))\<rparr>))
         (\<lambda>self3. Next (self3\<lparr>messages := messages self3
             @ [ToolMsg (call_id tc) (fst (execute_tool env (fn_name tc) args (world self1)))]\<rparr>))
       = Exit r self'"
    then obtain self1 where p1: "py_print env ?line self = Next self1"
      and rest: "then_step
         (py_print env
            (ResultLine (display_result (fst (execute_tool env (fn_name tc) args (world self1)))))
            (self1\<lparr>world := snd (execute_tool env (fn_name tc) args (world self1))\<rparr>))
         (\<lambda>self3. Next (self3\<lparr>messages := messages self3
             @ [ToolMsg (call_id tc) (fst (execute_tool env (fn_name tc) args (world self1)))]\<rparr>))
       = Exit r self'"
      by blast
    from then_step_Exit [OF rest] have "py_print env
            (ResultLine (display_result (fst (execute_tool env (fn_name tc) args (world self1)))))
            (self1\<lparr>world := snd (execute_tool env (fn_name tc) args (world self1))\<rparr>)
        = Exit r self'"
      by auto
    from py_print_Exit [OF this] py_print_Next [OF p1] show ?thesis
      by simp
  qed
qed

lemma tool_results_Cons:
  "tool_results (tc # tcs) (r # rs) = ToolMsg (call_id tc) r # tool_results tcs rs"
  by (simp add: tool_results_def)

lemma run_tool_calls_Next:
  assumes "run_tool_calls env tcs self = Next self'"
  shows "\<exists>rs. length rs = length tcs
           \<and> messages self' = messages self @ tool_results tcs rs
           \<and> filter is_model_call (trace self') = filter is_model_call (trace self)
           \<and> system_prompt self' = system_prompt self"
  using assms
proof (induction tcs arbitrary: self)
  case Nil
  then show ?case by (simp add: tool_results_def)
next
  case (Cons tc tcs)
  from Cons.prems obtain self1 where
    one: "run_tool_call env tc self = Next self1"
    and more: "run_tool_calls env tcs self1 = Next self'"
    by (auto dest: then_step_Next)
  from run_tool_call_Next [OF one] obtain r where
    r: "messages self1 = messages self @ [ToolMsg (call_id tc) r]"
       "filter is_model_call (trace self1) = filter is_model_call (trace self)"
       "system_prompt self1 = system_prompt self"
    by (auto simp: is_model_call_def)
  from Cons.IH [OF more] obtain rs where
    rs: "length rs = length tcs"
        "messages self' = messages self1 @ tool_results tcs rs"
        "filter is_model_call (trace self') = filter is_model_call (trace self1)"
        "system_prompt self' = system_prompt self1"
    by blast
  have "length (r # rs) = length (tc # tcs)"
    using rs(1) by simp
  moreover have "messages self' = messages self @ tool_results (tc # tcs) (r # rs)"
    using rs(2) r(1) by (simp add: tool_results_Cons)
  ultimately show ?case
    using rs(3,4) r(2,3) by metis
qed

lemma run_tool_calls_Exit:
  assumes "run_tool_calls env tcs self = Exit r self'"
  shows "\<exists>e. r = Inl e"
  using assms
proof (induction tcs arbitrary: self)
  case Nil
  then show ?case by simp
next
  case (Cons tc tcs)
  from then_step_Exit [OF Cons.prems [simplified]] show ?case
  proof
    assume "run_tool_call env tc self = Exit r self'"
    from run_tool_call_Exit [OF this] show ?thesis by simp
  next
    assume "\<exists>self1. run_tool_call env tc self = Next self1
              \<and> run_tool_calls env tcs self1 = Exit r self'"
    then show ?thesis using Cons.IH by blast
  qed
qed

lemma chat_body_tool_calls:
  assumes "model_call env (chat_request self) (world self) = (Inr m, w)"
    and "tool_calls m = Some tcs" and "tcs \<noteq> []"
  shows "chat_body env iteration self =
     then_step
       (py_print env (RoundBanner (iteration + 1))
          (self\<lparr>world := w, trace := trace self @ [ModelCall (chat_request self)]\<rparr>))
       (\<lambda>self2. run_tool_calls env tcs
          (self2\<lparr>messages := messages self2 @ [AssistantCalls (content m) tcs]\<rparr>))"
proof -
  from assms(3) obtain tc tcs' where "tcs = tc # tcs'"
    by (cases tcs) auto
  with assms(1,2) show ?thesis
    by (simp add: chat_body_def Let_def del: run_tool_calls.simps)
qed

text \<open>A pass whose response carries tool calls and which runs to its end.\<close>

lemma chat_body_round:
  assumes "model_call env (chat_request self) (world self) = (Inr m, w)"
    and "tool_calls m = Some tcs" and "tcs \<noteq> []"
    and "chat_body env iteration self = Next self'"
  shows "\<exists>rs. length rs = length tcs
           \<and> messages self' = messages self @ AssistantCalls (content m) tcs # tool_results tcs rs
           \<and> filter is_model_call (trace self')
               = filter is_model_call (trace self) @ [ModelCall (chat_request self)]
           \<and> system_prompt self' = system_prompt self"
proof -
  let ?self1 = "self\<lparr>world := w, trace := trace self @ [ModelCall (chat_request self)]\<rparr>"
  from then_step_Next [OF assms(4) [unfolded chat_body_tool_calls [OF assms(1,2,3)]]]
  obtain self2 where
    banner: "py_print env (RoundBanner (iteration + 1)) ?self1 = Next self2"
    and calls: "run_tool_calls env tcs
        (self2\<lparr>messages := messages self2 @ [AssistantCalls (content m) tcs]\<rparr>) = Next self'"
    by blast
  from run_tool_calls_Next [OF calls] obtain rs where
    rs: "length rs = length tcs"
        "messages self' = messages self2 @ [AssistantCalls (content m) tcs] @ tool_results tcs rs"
        "filter is_model_call (trace self') = filter is_model_call (trace self2)"
        "system_prompt self' = system_prompt self2"
    by auto
  from py_print_Next [OF banner] have
    "messages self2 = messages self"
    "filter is_model_call (trace self2)
       = filter is_model_call (trace self) @ [ModelCall (chat_request self)]"
    "system_prompt self2 = system_prompt self"
    by (simp_all add: is_model_call_def)
  with rs show ?thesis
    by auto
qed

lemma chat_body_Next_response:
  assumes "chat_body env iteration self = Next self'"
  shows "\<exists>m w tcs. model_call env (chat_request self) (world self) = (Inr m, w)
           \<and> tool_calls m = Some tcs \<and> tcs \<noteq> []"
proof -
  obtain resp w where mc: "model_call env (chat_request self) (world self) = (resp, w)"
    by (cases "model_call env (chat_request self) (world self)")
  from assms mc obtain m where m: "resp = Inr m"
    by (cases resp) (simp_all add: chat_body_def Let_def)
  from assms mc m obtain tcs where "tool_calls m = Some tcs" "tcs \<noteq> []"
    by (cases "tool_calls m"; cases "the (tool_calls m)")
       (simp_all add: chat_body_def Let_def)
  with mc m show ?thesis by blast
qed

lemma chat_body_Next_round:
  assumes "chat_body env iteration self = Next self'"
  shows "\<exists>r. is_round r \<and> messages self' = messages self @ r
           \<and> length (filter is_model_call (trace self'))
               = Suc (length (filter is_model_call (trace self)))"
proof -
  from chat_body_Next_response [OF assms] obtain m w tcs where
    mc: "model_call env (chat_request self) (world self) = (Inr m, w)"
    and tcs: "tool_calls m = Some tcs" "tcs \<noteq> []"
    by blast
  from chat_body_round [OF mc tcs assms]
  obtain rs where rs: "length rs = length tcs"
      "messages self' = messages self @ AssistantCalls (content m) tcs # tool_results tcs rs"
      "filter is_model_call (trace self')
         = filter is_model_call (trace self) @ [ModelCall (chat_request self)]"
    by auto
  have "is_round (AssistantCalls (content m) tcs # tool_results tcs rs)"
    unfolding is_round_def using tcs(2) rs(1) by blast
  then show ?thesis
    using rs(2,3) by auto
qed

lemma exhausts_chat_for:
  assumes "exhausts env its self"
  shows "fst (chat_for env its self) = Inr (Some iteration_limit_message)
       \<and> (\<exists>rounds. length rounds = length its \<and> (\<forall>r \<in> set rounds. is_round r)
             \<and> messages (snd (chat_for env its self)) = messages self @ concat rounds)
       \<and> length (filter is_model_call (trace (snd (chat_for env its self))))
           = length (filter is_model_call (trace self)) + length its"
  using assms
proof (induction its arbitrary: self)
  case Nil
  have "length ([] :: message list list) = 0 \<and> (\<forall>r \<in> set ([] :: message list list). is_round r)
      \<and> messages self = messages self @ concat ([] :: message list list)"
    by simp
  then show ?case by auto
next
  case (Cons i its)
  from Cons.prems obtain self' where
    body: "chat_body env i self = Next self'" and ex: "exhausts env its self'"
    by (cases "chat_body env i self") simp_all
  from chat_body_Next_round [OF body] obtain r where
    r: "is_round r" "messages self' = messages self @ r"
       "length (filter is_model_call (trace self'))
          = Suc (length (filter is_model_call (trace self)))"
    by blast
  from Cons.IH [OF ex] obtain rounds where
    ih: "fst (chat_for env its self') = Inr (Some iteration_limit_message)"
        "length rounds = length its" "\<forall>r \<in> set rounds. is_round r"
        "messages (snd (chat_for env its self')) = messages self' @ concat rounds"
        "length (filter is_model_call (trace (snd (chat_for env its self'))))
           = length (filter is_model_call (trace self')) + length its"
    by blast
  have step: "chat_for env (i # its) self = chat_for env its self'"
    using body by simp
  have "length (r # rounds) = length (i # its) \<and> (\<forall>x \<in> set (r # rounds). is_round x)
      \<and> messages (snd (chat_for env (i # its) self)) = messages self @ concat (r # rounds)"
    using ih(2,3,4) r(1,2) step by simp
  then have "\<exists>rounds. length rounds = length (i # its) \<and> (\<forall>x \<in> set rounds. is_round x)
      \<and> messages (snd (chat_for env (i # its) self)) = messages self @ concat rounds"
    by blast
  moreover have "fst (chat_for env (i # its) self) = Inr (Some iteration_limit_message)"
    using ih(1) step by simp
  moreover have "length (filter is_model_call (trace (snd (chat_for env (i # its) self))))
      = length (filter is_model_call (trace self)) + length (i # its)"
    using ih(5) r(3) step by simp
  ultimately show ?case by blast
qed

text \<open>
  A pass whose response carries tool calls goes on to the next pass or is left by an
  exception: it does not return.
\<close>

lemma response_has_tool_calls_step:
  assumes "response_has_tool_calls env self"
  shows "(\<exists>self'. chat_body env iteration self = Next self')
       \<or> (\<exists>e self'. chat_body env iteration self = Exit (Inl e) self')"
proof -
  obtain resp w where mc: "model_call env (chat_request self) (world self) = (resp, w)"
    by (cases "model_call env (chat_request self) (world self)")
  from assms mc obtain m where m: "resp = Inr m"
    by (cases resp) (simp_all add: response_has_tool_calls_def)
  from assms mc m obtain tcs where tcs: "tool_calls m = Some tcs" "tcs \<noteq> []"
    by (cases "tool_calls m") (simp_all add: response_has_tool_calls_def)
  let ?self1 = "self\<lparr>world := w, trace := trace self @ [ModelCall (chat_request self)]\<rparr>"
  note body = chat_body_tool_calls [OF mc [unfolded m] tcs, of iteration]
  show ?thesis
  proof (cases "chat_body env iteration self")
    case (Next self')
    then show ?thesis by blast
  next
    case (Exit r self')
    from then_step_Exit [OF Exit [unfolded body]] have "\<exists>e. r = Inl e"
    proof
      assume "py_print env (RoundBanner (iteration + 1)) ?self1 = Exit r self'"
      from py_print_Exit [OF this] show ?thesis by simp
    next
      assume "\<exists>self2. py_print env (RoundBanner (iteration + 1)) ?self1 = Next self2
        \<and> run_tool_calls env tcs
            (self2\<lparr>messages := messages self2 @ [AssistantCalls (content m) tcs]\<rparr>)
          = Exit r self'"
      then show ?thesis using run_tool_calls_Exit by blast
    qed
    with Exit show ?thesis by blast
  qed
qed

lemma every_response_exhausts:
  assumes "every_response_has_tool_calls env its self"
    and "\<forall>e. fst (chat_for env its self) \<noteq> Inl e"
  shows "exhausts env its self"
  using assms
proof (induction its arbitrary: self)
  case Nil
  show ?case by simp
next
  case (Cons i its)
  from Cons.prems(1) have "response_has_tool_calls env self"
    by simp
  from response_has_tool_calls_step [OF this, of i] Cons.prems(2) obtain self' where
    n: "chat_body env i self = Next self'"
    by auto
  with Cons.prems have "every_response_has_tool_calls env its self'"
    "\<forall>e. fst (chat_for env its self') \<noteq> Inl e"
    by simp_all
  with n show ?case
    using Cons.IH [of self'] by simp
qed

text \<open>The endpoint's own count of the requests it has served.\<close>

lemma execute_tool_calls:
  assumes "counts_model_calls env calls"
  shows "calls (snd (execute_tool env nm arguments w)) = calls w"
proof (cases "map_of TOOLS nm")
  case None
  then show ?thesis by (simp add: execute_tool_def)
next
  case (Some entry)
  obtain d ps func where entry: "entry = (d, ps, func)"
    by (cases entry)
  from assms have "calls (snd (call_handler env func arguments w)) = calls w"
    by (simp add: counts_model_calls_def)
  then show ?thesis
    by (cases "call_handler env func arguments w")
       (auto simp: execute_tool_def Some entry split: sum.splits)
qed

lemma py_print_calls:
  assumes "counts_model_calls env calls" and "py_print env line self = Next self'"
  shows "calls (world self') = calls (world self)"
  using assms py_print_Next [OF assms(2)] by (simp add: counts_model_calls_def)

lemma run_tool_call_calls:
  assumes c: "counts_model_calls env calls" and n: "run_tool_call env tc self = Next self'"
  shows "calls (world self') = calls (world self)"
proof -
  from n obtain args where args: "parse_tool_args env tc = Inr args"
    by (cases "parse_tool_args env tc") (simp_all add: run_tool_call_def)
  let ?line = "ToolCallLine (fn_name tc) args"
  from then_step_Next [OF n [unfolded run_tool_call_Inr [OF args]]] obtain self1 where
    p1: "py_print env ?line self = Next self1"
    and rest: "then_step
         (py_print env
            (ResultLine (display_result (fst (execute_tool env (fn_name tc) args (world self1)))))
            (self1\<lparr>world := snd (execute_tool env (fn_name tc) args (world self1))\<rparr>))
         (\<lambda>self3. Next (self3\<lparr>messages := messages self3
             @ [ToolMsg (call_id tc) (fst (execute_tool env (fn_name tc) args (world self1)))]\<rparr>))
       = Next self'"
    by blast
  from then_step_Next [OF rest] obtain self3 where
    p2: "py_print env
           (ResultLine (display_result (fst (execute_tool env (fn_name tc) args (world self1)))))
           (self1\<lparr>world := snd (execute_tool env (fn_name tc) args (world self1))\<rparr>)
         = Next self3"
    and fin: "self' = self3\<lparr>messages := messages self3
        @ [ToolMsg (call_id tc) (fst (execute_tool env (fn_name tc) args (world self1)))]\<rparr>"
    by auto
  from py_print_calls [OF c p1] py_print_calls [OF c p2] fin
    execute_tool_calls [OF c, of "fn_name tc" args "world self1"]
  show ?thesis
    by simp
qed

lemma run_tool_calls_calls:
  assumes "counts_model_calls env calls" and "run_tool_calls env tcs self = Next self'"
  shows "calls (world self') = calls (world self)"
  using assms(2)
proof (induction tcs arbitrary: self)
  case Nil
  then show ?case by simp
next
  case (Cons tc tcs)
  from Cons.prems obtain self1 where
    one: "run_tool_call env tc self = Next self1"
    and more: "run_tool_calls env tcs self1 = Next self'"
    by (auto dest: then_step_Next)
  from run_tool_call_calls [OF assms(1) one] Cons.IH [OF more] show ?case
    by simp
qed

lemma chat_body_calls:
  assumes c: "counts_model_calls env calls" and n: "chat_body env iteration self = Next self'"
  shows "calls (world self') = Suc (calls (world self))"
proof -
  from chat_body_Next_response [OF n] obtain m w tcs where
    mc: "model_call env (chat_request self) (world self) = (Inr m, w)"
    and tcs: "tool_calls m = Some tcs" "tcs \<noteq> []"
    by blast
  let ?self1 = "self\<lparr>world := w, trace := trace self @ [ModelCall (chat_request self)]\<rparr>"
  from then_step_Next [OF n [unfolded chat_body_tool_calls [OF mc tcs]]]
  obtain self2 where
    banner: "py_print env (RoundBanner (iteration + 1)) ?self1 = Next self2"
    and run: "run_tool_calls env tcs
        (self2\<lparr>messages := messages self2 @ [AssistantCalls (content m) tcs]\<rparr>)
          = Next self'"
    by blast
  from c have "calls (snd (model_call env (chat_request self) (world self)))
      = Suc (calls (world self))"
    by (simp add: counts_model_calls_def)
  with mc have "calls w = Suc (calls (world self))"
    by simp
  with py_print_calls [OF c banner] run_tool_calls_calls [OF c run] show ?thesis
    by simp
qed

lemma exhausts_calls:
  assumes "counts_model_calls env calls" and "exhausts env its self"
  shows "calls (world (snd (chat_for env its self))) = calls (world self) + length its"
  using assms(2)
proof (induction its arbitrary: self)
  case Nil
  show ?case by simp
next
  case (Cons i its)
  from Cons.prems obtain self' where
    body: "chat_body env i self = Next self'" and ex: "exhausts env its self'"
    by (cases "chat_body env i self") simp_all
  from chat_body_calls [OF assms(1) body] Cons.IH [OF ex] body show ?case
    by simp
qed

section \<open>The sample collaborators, evaluated\<close>

lemma TOOLS_bash:
  "map_of TOOLS (ascii ''bash'')
     = Some (ascii ''Run shell command'', [(ascii ''cmd'', ascii ''string'')], Bash)"
  by (simp add: TOOLS_def ascii_def)

lemma TOOLS_delete_universe: "map_of TOOLS (ascii ''delete_universe'') = None"
  by (simp add: TOOLS_def ascii_def)

lemma sample_execute:
  "execute_tool sample_env (ascii ''bash'') (JObj []) w
     = (tool_error_prefix @ ascii ''missing 1 required positional argument'', w)"
  "execute_tool sample_env (ascii ''bash'') (JInt 5) w
     = (tool_error_prefix @ ascii ''argument after ** must be a mapping'', w)"
  "execute_tool sample_env (ascii ''delete_universe'') arguments w
     = (unknown_tool_prefix @ ascii ''delete_universe'', w)"
  by (simp_all add: execute_tool_def TOOLS_bash TOOLS_delete_universe sample_env_def
      sample_handler_def)

lemma sample_parse:
  "parse_tool_args sample_env \<lparr>call_id = i, fn_name = n, fn_arguments = ascii ''oops''\<rparr>
     = Inr (JObj [])"
  "parse_tool_args sample_env \<lparr>call_id = i, fn_name = n, fn_arguments = ascii ''{}''\<rparr>
     = Inr (JObj [])"
  "parse_tool_args sample_env \<lparr>call_id = i, fn_name = n, fn_arguments = ascii ''5''\<rparr>
     = Inr (JInt 5)"
  by (simp_all add: parse_tool_args_def sample_env_def sample_loads_def ascii_def)

lemma sample_model_call:
  "model_call sample_env req w
     = (Inr \<lparr>content = None, tool_calls = Some sample_calls\<rparr>, Suc w)"
  by (simp add: sample_env_def sample_model_def)

lemma sample_print_line: "print_line sample_env line w = (None, w)"
  by (simp add: sample_env_def sample_print_def)

lemma sample_run:
  "exhausts sample_env [0..<max_iterations]
     (sample_agent\<lparr>messages := messages sample_agent @ [UserMsg (ascii ''hi'')]\<rparr>)"
  by (simp add: max_iterations_def upt_rec [of _ "numeral _"] upt_rec [of _ "Suc _"]
      sample_agent_def chat_body_def chat_request_def sample_model_call sample_calls_def
      Let_def run_tool_call_def py_print_def sample_print_line sample_parse sample_execute)

lemma sample_run_responses:
  "every_response_has_tool_calls sample_env [0..<max_iterations]
     (sample_agent\<lparr>messages := messages sample_agent @ [UserMsg (ascii ''hi'')]\<rparr>)"
  by (simp add: max_iterations_def upt_rec [of _ "numeral _"] upt_rec [of _ "Suc _"]
      sample_agent_def chat_body_def chat_request_def sample_model_call sample_calls_def
      Let_def run_tool_call_def py_print_def sample_print_line sample_parse sample_execute
      response_has_tool_calls_def)

lemma deep_parse:
  "parse_tool_args deep_env \<lparr>call_id = i, fn_name = n, fn_arguments = deep_payload\<rparr>
     = Inl recursion_error"
  by (simp add: parse_tool_args_def deep_env_def deep_loads_def)

lemma deep_model_call:
  "model_call deep_env req w = (Inr \<lparr>content = None, tool_calls = Some deep_calls\<rparr>, Suc w)"
  by (simp add: deep_env_def deep_model_def)

lemma deep_print_line: "print_line deep_env line w = (None, w)"
  by (simp add: deep_env_def sample_print_def)

lemma deep_chat_body:
  "chat_body deep_env iteration self
     = Exit (Inl recursion_error)
         (self\<lparr>world := Suc (world self),
               trace := trace self @ [ModelCall (chat_request self),
                                      Print (RoundBanner (iteration + 1))],
               messages := messages self @ [AssistantCalls None deep_calls]\<rparr>)"
  by (simp add: chat_body_def Let_def deep_model_call deep_calls_def py_print_def
      deep_print_line run_tool_call_def deep_parse)

lemma plain_model_call:
  "model_call plain_env req w
     = (Inr \<lparr>content = None, tool_calls = Some sample_calls\<rparr>, Suc w)"
  by (simp add: plain_env_def sample_model_def)

lemma plain_parse:
  "parse_tool_args plain_env \<lparr>call_id = i, fn_name = n, fn_arguments = ascii ''oops''\<rparr>
     = Inr (JObj [])"
  by (simp add: parse_tool_args_def plain_env_def sample_loads_def ascii_def)

lemma plain_print_line:
  "print_line plain_env (RoundBanner k) w = (None, w)"
  "print_line plain_env (ToolCallLine n a) w = (Some encode_error, w)"
  by (simp_all add: plain_env_def plain_print_def)

lemma plain_chat_body:
  "chat_body plain_env iteration self
     = Exit (Inl encode_error)
         (self\<lparr>world := Suc (world self),
               trace := trace self @ [ModelCall (chat_request self),
                                      Print (RoundBanner (iteration + 1))],
               messages := messages self @ [AssistantCalls None sample_calls]\<rparr>)"
  by (simp add: chat_body_def Let_def plain_model_call sample_calls_def py_print_def
      plain_print_line run_tool_call_def plain_parse)

lemma upt_max_iterations: "[0..<max_iterations] = 0 # [1..<max_iterations]"
  by (simp add: max_iterations_def upt_rec [of 0])

section \<open>Properties of dispatch\<close>

text \<open>
  C3. For a name that is not a key of \<open>TOOLS\<close>, and any arguments, \<open>execute_tool\<close>
  returns the text "unknown tool" followed by the name, and leaves the world as it
  is: no handler runs. The result is a string: \<open>execute_tool\<close> has no raising exit
  on this path, which returns before anything is called.
\<close>

theorem execute_tool_unknown:
  assumes "nm \<notin> fst ` set TOOLS"
  shows "execute_tool env nm arguments w = (unknown_tool_prefix @ nm, w)"
proof -
  from assms have "map_of TOOLS nm = None"
    by (simp add: map_of_eq_None_iff)
  then show ?thesis
    by (simp add: execute_tool_def)
qed

theorem execute_tool_unknown_witness:
  "ascii ''delete_universe'' \<notin> fst ` set TOOLS
   \<and> execute_tool sample_env (ascii ''delete_universe'') (JObj []) 0
       = (unknown_tool_prefix @ ascii ''delete_universe'', 0)"
proof -
  have h: "ascii ''delete_universe'' \<notin> fst ` set TOOLS"
    by (simp add: TOOLS_def ascii_def)
  from execute_tool_unknown [OF h, of sample_env "JObj []" 0] h show ?thesis
    by simp
qed

text \<open>
  C4. For a registered tool whose handler call raises an exception \<open>e\<close>,
  \<open>execute_tool\<close> returns the error marker followed by \<open>str(e)\<close>: the exception is
  caught and becomes the returned text, and the world is the one the handler left.
\<close>

theorem execute_tool_handler_raises:
  assumes "map_of TOOLS nm = Some (descr, params, func)"
    and "call_handler env func arguments w = (Inl e, w')"
  shows "execute_tool env nm arguments w = (tool_error_prefix @ exc_str e, w')"
  using assms by (simp add: execute_tool_def)

theorem execute_tool_handler_raises_witness:
  "map_of TOOLS (ascii ''bash'')
     = Some (ascii ''Run shell command'', [(ascii ''cmd'', ascii ''string'')], Bash)
   \<and> call_handler sample_env Bash (JObj []) 0
       = (Inl (PyException (ascii ''TypeError'')
                 (ascii ''missing 1 required positional argument'')), 0)
   \<and> execute_tool sample_env (ascii ''bash'') (JObj []) 0
       = (tool_error_prefix @ ascii ''missing 1 required positional argument'', 0)"
proof -
  have h1: "map_of TOOLS (ascii ''bash'')
     = Some (ascii ''Run shell command'', [(ascii ''cmd'', ascii ''string'')], Bash)"
    by (rule TOOLS_bash)
  have h2: "call_handler sample_env Bash (JObj []) 0
       = (Inl (PyException (ascii ''TypeError'')
                 (ascii ''missing 1 required positional argument'')), 0)"
    by (simp add: sample_env_def sample_handler_def)
  from execute_tool_handler_raises [OF h1 h2] h1 h2 show ?thesis
    by simp
qed

section \<open>Properties of the tool-call step\<close>

text \<open>
  C5. The claim is what lines 361 to 364 are there for: a payload that does not
  parse must not abort the turn. The code misses it. On a payload of 100000 opening
  brackets \<open>json.loads\<close> raises \<open>RecursionError\<close>, which \<open>except json.JSONDecodeError\<close>
  does not catch: the arguments are not replaced by \<open>{}\<close>, \<open>execute_tool\<close> is not
  called, and the exception leaves \<open>chat\<close>. On the payload \<open>5\<close>, which is JSON and not
  an object, the integer is handed to \<open>execute_tool\<close> in place of \<open>{}\<close>.
\<close>

theorem uncaught_loads_error_leaves_chat:
  "json_loads deep_env (fn_arguments (hd deep_calls)) = OtherError recursion_error
   \<and> parse_tool_args deep_env (hd deep_calls) = Inl recursion_error
   \<and> run_tool_call deep_env (hd deep_calls) sample_agent = Exit (Inl recursion_error) sample_agent
   \<and> fst (chat deep_env (ascii ''hi'') sample_agent) = Inl recursion_error
   \<and> json_loads sample_env (fn_arguments number_call) = Loaded (JInt 5)
   \<and> parse_tool_args sample_env number_call = Inr (JInt 5)"
proof -
  have "json_loads deep_env (fn_arguments (hd deep_calls)) = OtherError recursion_error"
    by (simp add: deep_calls_def deep_env_def deep_loads_def)
  moreover have p: "parse_tool_args deep_env (hd deep_calls) = Inl recursion_error"
    by (simp add: deep_calls_def deep_parse)
  moreover have "run_tool_call deep_env (hd deep_calls) sample_agent
      = Exit (Inl recursion_error) sample_agent"
    by (simp add: run_tool_call_def p)
  moreover have "fst (chat deep_env (ascii ''hi'') sample_agent) = Inl recursion_error"
    by (simp add: chat_def upt_max_iterations deep_chat_body)
  moreover have "json_loads sample_env (fn_arguments number_call) = Loaded (JInt 5)"
    by (simp add: sample_env_def number_call_def sample_loads_def ascii_def)
  moreover have "parse_tool_args sample_env number_call = Inr (JInt 5)"
    by (simp add: number_call_def sample_parse)
  ultimately show ?thesis
    by blast
qed

text \<open>
  C7. When a tool call runs to its end, the tool-result message appended holds the
  whole result of \<open>execute_tool\<close>, whatever its length; only the printed line goes
  through \<open>display_result\<close>, which cuts a result of more than 500 characters to its
  first 500 followed by three dots. When the tool call is left by an exception, no
  message is appended: no tool-result message ever holds a cut result.
\<close>

theorem tool_result_untruncated:
  "(\<forall>self'. run_tool_call env tc self = Next self' \<longrightarrow>
      (\<exists>args result.
          parse_tool_args env tc = Inr args
          \<and> result = fst (execute_tool env (fn_name tc) args
                            (snd (print_line env (ToolCallLine (fn_name tc) args) (world self))))
          \<and> messages self' = messages self @ [ToolMsg (call_id tc) result]
          \<and> trace self' = trace self @ [Print (ToolCallLine (fn_name tc) args),
                                         Print (ResultLine (display_result result))]))
   \<and> (\<forall>r self'. run_tool_call env tc self = Exit r self' \<longrightarrow> messages self' = messages self)
   \<and> (500 < length result \<longrightarrow>
        display_result result = take 500 result @ ascii ''...''
        \<and> length (display_result result) = 503)"
proof (intro conjI allI impI)
  fix self' assume "run_tool_call env tc self = Next self'"
  from run_tool_call_Next [OF this]
  show "\<exists>args result.
          parse_tool_args env tc = Inr args
          \<and> result = fst (execute_tool env (fn_name tc) args
                            (snd (print_line env (ToolCallLine (fn_name tc) args) (world self))))
          \<and> messages self' = messages self @ [ToolMsg (call_id tc) result]
          \<and> trace self' = trace self @ [Print (ToolCallLine (fn_name tc) args),
                                         Print (ResultLine (display_result result))]"
    by blast
next
  fix r self' assume "run_tool_call env tc self = Exit r self'"
  from run_tool_call_Exit [OF this] show "messages self' = messages self"
    by simp
next
  assume "500 < length result"
  then show "display_result result = take 500 result @ ascii ''...''"
    by (simp add: display_result_def)
next
  assume "500 < length result"
  then show "length (display_result result) = 503"
    by (simp add: display_result_def ascii_def)
qed

theorem tool_result_untruncated_witness:
  "500 < length (replicate 501 (120::nat))
   \<and> (\<exists>self'. run_tool_call long_env (hd sample_calls) sample_agent = Next self'
         \<and> messages self' = [ToolMsg (ascii ''call_a'') (replicate 501 120)]
         \<and> trace self' = [Print (ToolCallLine (ascii ''bash'') (JObj [])),
                           Print (ResultLine (replicate 500 120 @ ascii ''...''))])"
proof -
  have p: "parse_tool_args long_env (hd sample_calls) = Inr (JObj [])"
    by (simp add: parse_tool_args_def long_env_def sample_calls_def sample_loads_def ascii_def)
  have pl: "print_line long_env line w = (None, w)" for line w
    by (simp add: long_env_def sample_print_def)
  have e: "execute_tool long_env (ascii ''bash'') (JObj []) w = (replicate 501 120, w)" for w
    by (simp add: execute_tool_def TOOLS_bash long_env_def)
  have l: "500 < length (replicate 501 (120::nat))"
    by simp
  have a: "messages sample_agent = []" "trace sample_agent = []"
    "call_id (hd sample_calls) = ascii ''call_a''" "fn_name (hd sample_calls) = ascii ''bash''"
    by (simp_all add: sample_agent_def sample_calls_def)
  have d: "display_result (replicate 501 120) = replicate 500 120 @ ascii ''...''"
    by (simp add: display_result_def)
  obtain self' where n: "run_tool_call long_env (hd sample_calls) sample_agent = Next self'"
    by (simp add: run_tool_call_def p py_print_def pl a e Let_def)
  from tool_result_untruncated
      [where env = long_env and tc = "hd sample_calls" and self = sample_agent
         and result = "replicate 501 120"]
    n obtain args result where
      r: "parse_tool_args long_env (hd sample_calls) = Inr args"
         "result = fst (execute_tool long_env (fn_name (hd sample_calls)) args
                     (snd (print_line long_env (ToolCallLine (fn_name (hd sample_calls)) args)
                        (world sample_agent))))"
         "messages self' = messages sample_agent @ [ToolMsg (call_id (hd sample_calls)) result]"
         "trace self' = trace sample_agent @ [Print (ToolCallLine (fn_name (hd sample_calls)) args),
                                         Print (ResultLine (display_result result))]"
    by blast
  from r(1) p have args: "args = JObj []"
    by simp
  from r(2) have res: "result = replicate 501 120"
    by (simp add: args a e)
  from r(3,4) have "messages self' = [ToolMsg (ascii ''call_a'') (replicate 501 120)]"
    "trace self' = [Print (ToolCallLine (ascii ''bash'') (JObj [])),
                    Print (ResultLine (replicate 500 120 @ ascii ''...''))]"
    by (simp_all add: args res a d)
  with n l show ?thesis
    by blast
qed

text \<open>
  C2, as stated: an assistant message with N tool calls is always followed by N
  tool-result messages before the next call of the endpoint. The tool loop can be
  left by an exception, and then it is not. With a console that cannot encode the
  lines of the tool loop, and with a payload on which \<open>json.loads\<close> raises
  \<open>RecursionError\<close>, the pass appends the assistant message with its two tool calls
  and no tool-result message; \<open>chat\<close> is left, and the request of the next turn holds
  that history.
\<close>

theorem tool_calls_left_unanswered:
  "length sample_calls = 2
   \<and> chat_body plain_env 0 sample_agent
       = Exit (Inl encode_error)
           (sample_agent\<lparr>world := 1,
              trace := [ModelCall (chat_request sample_agent), Print (RoundBanner 1)],
              messages := [AssistantCalls None sample_calls]\<rparr>)
   \<and> messages (snd (chat plain_env (ascii ''hi'') sample_agent))
       = [UserMsg (ascii ''hi''), AssistantCalls None sample_calls]
   \<and> req_messages (chat_request
        ((snd (chat plain_env (ascii ''hi'') sample_agent))
           \<lparr>messages := messages (snd (chat plain_env (ascii ''hi'') sample_agent))
                          @ [UserMsg (ascii ''again'')]\<rparr>))
       = [SystemMsg (ascii ''sys''), UserMsg (ascii ''hi''), AssistantCalls None sample_calls,
          UserMsg (ascii ''again'')]
   \<and> length deep_calls = 2
   \<and> chat_body deep_env 0 sample_agent
       = Exit (Inl recursion_error)
           (sample_agent\<lparr>world := 1,
              trace := [ModelCall (chat_request sample_agent), Print (RoundBanner 1)],
              messages := [AssistantCalls None deep_calls]\<rparr>)
   \<and> messages (snd (chat deep_env (ascii ''hi'') sample_agent))
       = [UserMsg (ascii ''hi''), AssistantCalls None deep_calls]"
proof -
  have "length sample_calls = 2" "length deep_calls = 2"
    by (simp_all add: sample_calls_def deep_calls_def)
  moreover have "chat_body plain_env 0 sample_agent
       = Exit (Inl encode_error)
           (sample_agent\<lparr>world := 1,
              trace := [ModelCall (chat_request sample_agent), Print (RoundBanner 1)],
              messages := [AssistantCalls None sample_calls]\<rparr>)"
    by (simp add: plain_chat_body) (simp add: sample_agent_def)
  moreover have "chat_body deep_env 0 sample_agent
       = Exit (Inl recursion_error)
           (sample_agent\<lparr>world := 1,
              trace := [ModelCall (chat_request sample_agent), Print (RoundBanner 1)],
              messages := [AssistantCalls None deep_calls]\<rparr>)"
    by (simp add: deep_chat_body) (simp add: sample_agent_def)
  moreover have "messages (snd (chat plain_env (ascii ''hi'') sample_agent))
       = [UserMsg (ascii ''hi''), AssistantCalls None sample_calls]"
    by (simp add: chat_def upt_max_iterations plain_chat_body sample_agent_def)
  moreover have "req_messages (chat_request
        ((snd (chat plain_env (ascii ''hi'') sample_agent))
           \<lparr>messages := messages (snd (chat plain_env (ascii ''hi'') sample_agent))
                          @ [UserMsg (ascii ''again'')]\<rparr>))
       = [SystemMsg (ascii ''sys''), UserMsg (ascii ''hi''), AssistantCalls None sample_calls,
          UserMsg (ascii ''again'')]"
    by (simp add: chat_def upt_max_iterations plain_chat_body sample_agent_def chat_request_def)
  moreover have "messages (snd (chat deep_env (ascii ''hi'') sample_agent))
       = [UserMsg (ascii ''hi''), AssistantCalls None deep_calls]"
    by (simp add: chat_def upt_max_iterations deep_chat_body sample_agent_def)
  ultimately show ?thesis
    by blast
qed

text \<open>
  C2, amended. When the response carries the tool calls \<open>tcs\<close> (at least one) and the
  pass is not left by an exception, the pass appends the assistant message with
  \<open>tcs\<close> and then exactly \<open>length tcs\<close> tool-result messages, the k-th carrying the
  identifier of the k-th call. The endpoint is called once in the pass, with the
  history as it was before; the loop goes on from the state so reached, and the
  request of the next pass holds the assistant message followed by all the tool
  results.
\<close>

theorem tool_results_follow_calls:
  assumes "model_call env (chat_request self) (world self) = (Inr m, w)"
    and "tool_calls m = Some tcs" and "tcs \<noteq> []"
    and "\<forall>e s. chat_body env iteration self \<noteq> Exit (Inl e) s"
  shows "\<exists>self' rs. chat_body env iteration self = Next self'
           \<and> chat_for env (iteration # rest) self = chat_for env rest self'
           \<and> length rs = length tcs
           \<and> messages self' = messages self @ AssistantCalls (content m) tcs # tool_results tcs rs
           \<and> filter is_model_call (trace self')
               = filter is_model_call (trace self) @ [ModelCall (chat_request self)]
           \<and> req_messages (chat_request self')
               = SystemMsg (system_prompt self) # messages self
                 @ AssistantCalls (content m) tcs # tool_results tcs rs"
proof -
  from assms(1,2,3) have "response_has_tool_calls env self"
    by (simp add: response_has_tool_calls_def)
  from response_has_tool_calls_step [OF this, of iteration] assms(4) obtain self' where
    n: "chat_body env iteration self = Next self'"
    by blast
  from chat_body_round [OF assms(1,2,3) n] obtain rs where
    r: "length rs = length tcs"
       "messages self' = messages self @ AssistantCalls (content m) tcs # tool_results tcs rs"
       "filter is_model_call (trace self')
          = filter is_model_call (trace self) @ [ModelCall (chat_request self)]"
       "system_prompt self' = system_prompt self"
    by blast
  have "chat_for env (iteration # rest) self = chat_for env rest self'"
    using n by simp
  moreover have "req_messages (chat_request self')
      = SystemMsg (system_prompt self) # messages self
        @ AssistantCalls (content m) tcs # tool_results tcs rs"
    using r(2,4) by (simp add: chat_request_def)
  ultimately show ?thesis
    using n r(1,2,3) by blast
qed

theorem tool_results_follow_calls_witness:
  "model_call sample_env (chat_request sample_agent) (world sample_agent)
     = (Inr \<lparr>content = None, tool_calls = Some sample_calls\<rparr>, 1)
   \<and> sample_calls \<noteq> []
   \<and> (\<forall>e s. chat_body sample_env 0 sample_agent \<noteq> Exit (Inl e) s)
   \<and> (\<exists>self' rs. chat_body sample_env 0 sample_agent = Next self'
         \<and> chat_for sample_env [0] sample_agent = chat_for sample_env [] self'
         \<and> length rs = 2
         \<and> messages self' = AssistantCalls None sample_calls # tool_results sample_calls rs
         \<and> filter is_model_call (trace self') = [ModelCall (chat_request sample_agent)]
         \<and> req_messages (chat_request self')
             = SystemMsg (ascii ''sys'') # AssistantCalls None sample_calls
               # tool_results sample_calls rs)"
proof -
  have h1: "model_call sample_env (chat_request sample_agent) (world sample_agent)
     = (Inr \<lparr>content = None, tool_calls = Some sample_calls\<rparr>, 1)"
    by (simp add: sample_model_call sample_agent_def)
  have h2: "tool_calls \<lparr>content = None, tool_calls = Some sample_calls\<rparr> = Some sample_calls"
    by simp
  have h3: "sample_calls \<noteq> []"
    by (simp add: sample_calls_def)
  have h4: "\<forall>e s. chat_body sample_env 0 sample_agent \<noteq> Exit (Inl e) s"
    by (simp add: sample_agent_def chat_body_def chat_request_def sample_model_call
        sample_calls_def Let_def run_tool_call_def py_print_def sample_print_line sample_parse
        sample_execute)
  have len: "length sample_calls = 2"
    by (simp add: sample_calls_def)
  from tool_results_follow_calls [OF h1 h2 h3 h4, of "[]"] h1 h3 h4 len show ?thesis
    by (simp add: sample_agent_def)
qed

section \<open>Properties of \<open>chat\<close>\<close>

text \<open>
  C1, as stated: when every response carries a tool call, \<open>chat\<close> returns the
  iteration-limit message after 10 calls of the endpoint. An exception in the tool
  loop ends the turn before that. With a console that cannot encode the lines of
  the tool loop, and with a payload on which \<open>json.loads\<close> raises \<open>RecursionError\<close>,
  every response carries tool calls, and \<open>chat\<close> is left by the exception after one
  call of the endpoint.
\<close>

theorem exception_ends_turn_early:
  "every_response_has_tool_calls plain_env [0..<max_iterations]
     (sample_agent\<lparr>messages := messages sample_agent @ [UserMsg (ascii ''hi'')]\<rparr>)
   \<and> fst (chat plain_env (ascii ''hi'') sample_agent) = Inl encode_error
   \<and> world (snd (chat plain_env (ascii ''hi'') sample_agent)) = 1
   \<and> every_response_has_tool_calls deep_env [0..<max_iterations]
       (sample_agent\<lparr>messages := messages sample_agent @ [UserMsg (ascii ''hi'')]\<rparr>)
   \<and> fst (chat deep_env (ascii ''hi'') sample_agent) = Inl recursion_error
   \<and> world (snd (chat deep_env (ascii ''hi'') sample_agent)) = 1"
proof -
  have "every_response_has_tool_calls plain_env [0..<max_iterations]
     (sample_agent\<lparr>messages := messages sample_agent @ [UserMsg (ascii ''hi'')]\<rparr>)"
    by (simp add: upt_max_iterations plain_chat_body response_has_tool_calls_def
        plain_model_call sample_calls_def)
  moreover have "every_response_has_tool_calls deep_env [0..<max_iterations]
       (sample_agent\<lparr>messages := messages sample_agent @ [UserMsg (ascii ''hi'')]\<rparr>)"
    by (simp add: upt_max_iterations deep_chat_body response_has_tool_calls_def
        deep_model_call deep_calls_def)
  moreover have "fst (chat plain_env (ascii ''hi'') sample_agent) = Inl encode_error"
    "world (snd (chat plain_env (ascii ''hi'') sample_agent)) = 1"
    by (simp_all add: chat_def upt_max_iterations plain_chat_body sample_agent_def)
  moreover have "fst (chat deep_env (ascii ''hi'') sample_agent) = Inl recursion_error"
    "world (snd (chat deep_env (ascii ''hi'') sample_agent)) = 1"
    by (simp_all add: chat_def upt_max_iterations deep_chat_body sample_agent_def)
  ultimately show ?thesis
    by blast
qed

text \<open>
  C1, amended. If at every pass of the turn the response of the endpoint carries at
  least one tool call, and \<open>chat\<close> is not left by an exception, then \<open>chat\<close> returns
  the iteration-limit message, and the endpoint has been called exactly 10 times
  during the turn: by the endpoint's own count of the requests it has served, and
  by the agent's record of its calls. \<open>chat\<close> is a total function of the
  environment: given collaborators that return, it returns.
\<close>

theorem chat_iteration_limit:
  assumes "every_response_has_tool_calls env [0..<max_iterations]
             (self\<lparr>messages := messages self @ [UserMsg user_input]\<rparr>)"
    and "\<forall>e. fst (chat env user_input self) \<noteq> Inl e"
    and "counts_model_calls env calls"
  shows "fst (chat env user_input self) = Inr (Some iteration_limit_message)
       \<and> calls (world (snd (chat env user_input self))) = calls (world self) + 10
       \<and> length (filter is_model_call (trace (snd (chat env user_input self))))
           = length (filter is_model_call (trace self)) + 10"
proof -
  let ?self0 = "self\<lparr>messages := messages self @ [UserMsg user_input]\<rparr>"
  from assms(2) have "\<forall>e. fst (chat_for env [0..<max_iterations] ?self0) \<noteq> Inl e"
    by (simp add: chat_def)
  with assms(1) have ex: "exhausts env [0..<max_iterations] ?self0"
    by (rule every_response_exhausts)
  from exhausts_chat_for [OF ex] exhausts_calls [OF assms(3) ex] show ?thesis
    by (simp add: chat_def max_iterations_def)
qed

theorem chat_iteration_limit_witness:
  "every_response_has_tool_calls sample_env [0..<max_iterations]
     (sample_agent\<lparr>messages := messages sample_agent @ [UserMsg (ascii ''hi'')]\<rparr>)
   \<and> (\<forall>e. fst (chat sample_env (ascii ''hi'') sample_agent) \<noteq> Inl e)
   \<and> counts_model_calls sample_env (\<lambda>w. w)
   \<and> fst (chat sample_env (ascii ''hi'') sample_agent) = Inr (Some iteration_limit_message)
   \<and> world (snd (chat sample_env (ascii ''hi'') sample_agent)) = 10
   \<and> length (filter is_model_call (trace (snd (chat sample_env (ascii ''hi'') sample_agent))))
       = 10"
proof -
  have h1: "every_response_has_tool_calls sample_env [0..<max_iterations]
     (sample_agent\<lparr>messages := messages sample_agent @ [UserMsg (ascii ''hi'')]\<rparr>)"
    by (rule sample_run_responses)
  have h2: "\<forall>e. fst (chat sample_env (ascii ''hi'') sample_agent) \<noteq> Inl e"
    using exhausts_chat_for [OF sample_run] by (simp add: chat_def)
  have h3: "counts_model_calls sample_env (\<lambda>w. w)"
    by (simp add: counts_model_calls_def sample_env_def sample_model_def sample_handler_def
        sample_print_def split: json.splits)
  from chat_iteration_limit [OF h1 h2 h3] h1 h2 h3 show ?thesis
    by (simp add: sample_agent_def)
qed

text \<open>
  C8. When the run falls out of the loop, \<open>chat\<close> returns the iteration-limit
  message, and the history is the one before the turn, followed by the user message
  and by the 10 rounds of the turn, each an assistant message with its tool calls
  and their tool results. Nothing is removed.
\<close>

theorem iteration_limit_keeps_history:
  assumes "exhausts env [0..<max_iterations]
             (self\<lparr>messages := messages self @ [UserMsg user_input]\<rparr>)"
  shows "fst (chat env user_input self) = Inr (Some iteration_limit_message)
       \<and> (\<exists>rounds. length rounds = max_iterations \<and> (\<forall>r \<in> set rounds. is_round r)
             \<and> messages (snd (chat env user_input self))
                 = messages self @ UserMsg user_input # concat rounds)"
  using exhausts_chat_for [OF assms] by (simp add: chat_def)

theorem iteration_limit_keeps_history_witness:
  "exhausts sample_env [0..<max_iterations]
     (sample_agent\<lparr>messages := messages sample_agent @ [UserMsg (ascii ''hi'')]\<rparr>)
   \<and> fst (chat sample_env (ascii ''hi'') sample_agent) = Inr (Some iteration_limit_message)
   \<and> (\<exists>rounds. length rounds = max_iterations \<and> (\<forall>r \<in> set rounds. is_round r)
         \<and> messages (snd (chat sample_env (ascii ''hi'') sample_agent))
             = UserMsg (ascii ''hi'') # concat rounds)"
proof -
  have h: "exhausts sample_env [0..<max_iterations]
     (sample_agent\<lparr>messages := messages sample_agent @ [UserMsg (ascii ''hi'')]\<rparr>)"
    by (rule sample_run)
  from iteration_limit_keeps_history [OF h] h show ?thesis
    by (simp add: sample_agent_def)
qed

text \<open>
  C9. After \<open>clear_history\<close>, the history (what the next request is built from) is
  empty, whatever it held before.
\<close>

theorem clear_history_snapshot_empty:
  "messages (clear_history self) = []
   \<and> req_messages (chat_request (clear_history self)) = [SystemMsg (system_prompt self)]"
  by (simp add: clear_history_def chat_request_def)

section \<open>Properties of the schema export\<close>

lemma add_params_required:
  "snd (foldl add_param (props, req) params)
     = req @ map fst (filter (\<lambda>(p, t). \<not> endswith_qmark t) params)"
proof (induction params arbitrary: props req)
  case Nil
  show ?case by simp
next
  case (Cons a params)
  obtain p t where a: "a = (p, t)" by (cases a)
  obtain props' req' where step: "add_param (props, req) (p, t) = (props', req')"
    by (cases "add_param (props, req) (p, t)")
  then have "req' = (if endswith_qmark t then req else req @ [p])"
    by (auto simp: add_param_def Let_def split: if_splits)
  then show ?case
    using Cons.IH [of props' req'] by (simp add: a step)
qed

lemma add_params_properties:
  "fst ` set (fst (foldl add_param (props, req) params))
     = fst ` set props
       \<union> set (map fst (filter (\<lambda>(p, t).
                (if endswith_qmark t then butlast t else t)
                  \<in> {ascii ''string'', ascii ''number'', ascii ''boolean''}) params))"
proof (induction params arbitrary: props req)
  case Nil
  show ?case by simp
next
  case (Cons a params)
  obtain p t where a: "a = (p, t)" by (cases a)
  obtain props' req' where step: "add_param (props, req) (p, t) = (props', req')"
    by (cases "add_param (props, req) (p, t)")
  let ?b = "if endswith_qmark t then butlast t else t"
  show ?case
  proof (cases "?b \<in> {ascii ''string'', ascii ''number'', ascii ''boolean''}")
    case True
    then have "props' = AList.update p ?b props"
      using step by (auto simp: add_param_def Let_def split: if_splits)
    then have "fst ` set props' = insert p (fst ` set props)"
      by (simp add: dom_update)
    with True show ?thesis
      using Cons.IH [of props' req'] by (simp add: a step)
  next
    case False
    then have "props' = props"
      using step by (auto simp: add_param_def Let_def split: if_splits)
    with False show ?thesis
      using Cons.IH [of props' req'] by (simp add: a step)
  qed
qed

lemma build_tool_fields:
  "name (build_tool (nm, descr, params, func)) = nm"
  "required (build_tool (nm, descr, params, func))
     = map fst (filter (\<lambda>(p, t). \<not> endswith_qmark t) params)"
  "fst ` set (properties (build_tool (nm, descr, params, func)))
     = set (map fst (filter (\<lambda>(p, t).
                (if endswith_qmark t then butlast t else t)
                  \<in> {ascii ''string'', ascii ''number'', ascii ''boolean''}) params))"
proof -
  obtain props req where f: "foldl add_param ([], []) params = (props, req)"
    by (cases "foldl add_param ([], []) params")
  show "name (build_tool (nm, descr, params, func)) = nm"
    by (simp add: build_tool_def f)
  show "required (build_tool (nm, descr, params, func))
     = map fst (filter (\<lambda>(p, t). \<not> endswith_qmark t) params)"
    using add_params_required [of "[]" "[]" params] by (simp add: build_tool_def f)
  show "fst ` set (properties (build_tool (nm, descr, params, func)))
     = set (map fst (filter (\<lambda>(p, t).
                (if endswith_qmark t then butlast t else t)
                  \<in> {ascii ''string'', ascii ''number'', ascii ''boolean''}) params))"
  proof -
    have "properties (build_tool (nm, descr, params, func)) = props"
      by (simp add: build_tool_def f)
    then show ?thesis
      using add_params_properties [of "[]" "[]" params, unfolded f]
      by (simp only: fst_conv list.set(1) image_empty Un_empty_left)
  qed
qed

lemma build_tool_params:
  assumes d: "distinct (map fst params)"
    and k: "\<forall>(p, t) \<in> set params.
              (if endswith_qmark t then butlast t else t)
                \<in> {ascii ''string'', ascii ''number'', ascii ''boolean''}"
    and m: "(p, t) \<in> set params"
  shows "(\<not> endswith_qmark t \<longrightarrow> p \<in> set (required (build_tool (nm, descr, params, func))))
       \<and> (endswith_qmark t \<longrightarrow>
            p \<in> fst ` set (properties (build_tool (nm, descr, params, func)))
            \<and> p \<notin> set (required (build_tool (nm, descr, params, func))))"
proof (intro conjI impI)
  assume "\<not> endswith_qmark t"
  with m show "p \<in> set (required (build_tool (nm, descr, params, func)))"
    by (force simp: build_tool_fields(2))
next
  assume "endswith_qmark t"
  from m k have "(if endswith_qmark t then butlast t else t)
                \<in> {ascii ''string'', ascii ''number'', ascii ''boolean''}"
    by blast
  with m show "p \<in> fst ` set (properties (build_tool (nm, descr, params, func)))"
    unfolding build_tool_fields(3) by force
next
  assume q: "endswith_qmark t"
  show "p \<notin> set (required (build_tool (nm, descr, params, func)))"
  proof
    assume "p \<in> set (required (build_tool (nm, descr, params, func)))"
    then obtain t' where t': "(p, t') \<in> set params" "\<not> endswith_qmark t'"
      by (auto simp: build_tool_fields(2))
    from d m t'(1) have "t' = t"
      by (meson eq_key_imp_eq_value)
    with q t'(2) show False by simp
  qed
qed

lemma TOOLS_well_formed:
  "\<forall>(nm, descr, params, func) \<in> set TOOLS.
     distinct (map fst params)
     \<and> (\<forall>(p, t) \<in> set params.
          (if endswith_qmark t then butlast t else t)
            \<in> {ascii ''string'', ascii ''number'', ascii ''boolean''})"
  by (simp add: TOOLS_def ascii_def endswith_qmark_def)

lemma TOOLS_names_distinct: "distinct (map fst TOOLS)"
  by (simp add: TOOLS_def ascii_def)

text \<open>
  C6. \<open>build_openai_tools\<close> has one entry for each tool of \<open>TOOLS\<close>, in the same
  order and under the tool's name, and the names are distinct. In the entry of a
  tool, every parameter whose declared type does not end in \<open>?\<close> is in \<open>required\<close>;
  every parameter whose declared type ends in \<open>?\<close> is a key of \<open>properties\<close> and is
  not in \<open>required\<close>.
\<close>

theorem schema_export:
  "length build_openai_tools = length TOOLS
   \<and> distinct (map name build_openai_tools)
   \<and> (\<forall>i < length TOOLS.
        name (build_openai_tools ! i) = fst (TOOLS ! i)
        \<and> (\<forall>(p, t) \<in> set (fst (snd (snd (TOOLS ! i)))).
             (\<not> endswith_qmark t \<longrightarrow> p \<in> set (required (build_openai_tools ! i)))
             \<and> (endswith_qmark t \<longrightarrow>
                  p \<in> fst ` set (properties (build_openai_tools ! i))
                  \<and> p \<notin> set (required (build_openai_tools ! i)))))"
proof (intro conjI allI impI)
  show "length build_openai_tools = length TOOLS"
    by (simp add: build_openai_tools_def)
  have names: "map name build_openai_tools = map fst TOOLS"
    by (auto simp: build_openai_tools_def build_tool_fields(1))
  show "distinct (map name build_openai_tools)"
    using TOOLS_names_distinct by (simp add: names)
next
  fix i assume i: "i < length TOOLS"
  obtain nm descr params func where e: "TOOLS ! i = (nm, descr, params, func)"
    by (cases "TOOLS ! i") auto
  have s: "build_openai_tools ! i = build_tool (nm, descr, params, func)"
    using i e by (simp add: build_openai_tools_def)
  show "name (build_openai_tools ! i) = fst (TOOLS ! i)"
    by (simp add: s e build_tool_fields(1))
  from i e have "(nm, descr, params, func) \<in> set TOOLS"
    by (metis nth_mem)
  with TOOLS_well_formed have wf: "distinct (map fst params)"
    "\<forall>(p, t) \<in> set params.
          (if endswith_qmark t then butlast t else t)
            \<in> {ascii ''string'', ascii ''number'', ascii ''boolean''}"
    by blast+
  show "\<forall>(p, t) \<in> set (fst (snd (snd (TOOLS ! i)))).
             (\<not> endswith_qmark t \<longrightarrow> p \<in> set (required (build_openai_tools ! i)))
             \<and> (endswith_qmark t \<longrightarrow>
                  p \<in> fst ` set (properties (build_openai_tools ! i))
                  \<and> p \<notin> set (required (build_openai_tools ! i)))"
    using build_tool_params [OF wf] by (auto simp: s e)
qed

theorem schema_export_witness:
  "(0::nat) < length TOOLS
   \<and> (ascii ''path'', ascii ''string'') \<in> set (fst (snd (snd (TOOLS ! 0))))
   \<and> (ascii ''offset'', ascii ''number?'') \<in> set (fst (snd (snd (TOOLS ! 0))))
   \<and> \<not> endswith_qmark (ascii ''string'') \<and> endswith_qmark (ascii ''number?'')
   \<and> name (build_openai_tools ! 0) = ascii ''read''
   \<and> ascii ''path'' \<in> set (required (build_openai_tools ! 0))
   \<and> ascii ''offset'' \<in> fst ` set (properties (build_openai_tools ! 0))
   \<and> ascii ''offset'' \<notin> set (required (build_openai_tools ! 0))"
proof -
  have t0: "TOOLS ! 0 = (ascii ''read'',
       (ascii ''Read file with line numbers (file path, not directory)'',
        [(ascii ''path'', ascii ''string''), (ascii ''offset'', ascii ''number?''),
         (ascii ''limit'', ascii ''number?'')],
        Read))"
    by (simp add: TOOLS_def)
  have l: "(0::nat) < length TOOLS"
    by (simp add: TOOLS_def)
  have m1: "(ascii ''path'', ascii ''string'') \<in> set (fst (snd (snd (TOOLS ! 0))))"
    and m2: "(ascii ''offset'', ascii ''number?'') \<in> set (fst (snd (snd (TOOLS ! 0))))"
    by (simp_all add: t0)
  have q1: "\<not> endswith_qmark (ascii ''string'')" and q2: "endswith_qmark (ascii ''number?'')"
    by (simp_all add: endswith_qmark_def ascii_def)
  from schema_export l have row: "name (build_openai_tools ! 0) = fst (TOOLS ! 0)
        \<and> (\<forall>(p, t) \<in> set (fst (snd (snd (TOOLS ! 0)))).
             (\<not> endswith_qmark t \<longrightarrow> p \<in> set (required (build_openai_tools ! 0)))
             \<and> (endswith_qmark t \<longrightarrow>
                  p \<in> fst ` set (properties (build_openai_tools ! 0))
                  \<and> p \<notin> set (required (build_openai_tools ! 0))))"
    by blast
  from row have "name (build_openai_tools ! 0) = ascii ''read''"
    by (simp add: t0)
  moreover from row m1 q1 have "ascii ''path'' \<in> set (required (build_openai_tools ! 0))"
    by blast
  moreover from row m2 q2 have "ascii ''offset'' \<in> fst ` set (properties (build_openai_tools ! 0))
      \<and> ascii ''offset'' \<notin> set (required (build_openai_tools ! 0))"
    by blast
  ultimately show ?thesis
    using l m1 m2 q1 q2 by blast
qed

section \<open>Properties of \<open>read\<close>\<close>

lemma py_enumerate_nth:
  "py_enumerate i xs = map (\<lambda>k. (i + int k, xs ! k)) [0..<length xs]"
proof (induction xs arbitrary: i)
  case Nil
  show ?case by simp
next
  case (Cons x xs)
  have "[0..<length (x # xs)] = 0 # map Suc [0..<length xs]"
    by (simp add: upt_conv_Cons map_Suc_upt del: upt_Suc)
  then show ?case
    by (simp add: Cons.IH [of "i + 1"] comp_def add.assoc del: upt_Suc)
qed

lemma take_min_length: "take (min (length ys) k) ys = take k ys"
  by (cases "length ys \<le> k") (simp_all add: min_def)

lemma py_slice_window:
  assumes "0 \<le> start" and "0 \<le> l"
  shows "py_slice xs start (min (int (length xs)) (start + l))
           = take (nat l) (drop (nat start) xs)"
proof -
  let ?n = "int (length xs)"
  let ?end = "min ?n (start + l)"
  have e: "\<not> ?end < 0" "min ?end ?n = ?end" "\<not> start < 0"
    using assms by simp_all
  have sl: "py_slice xs start ?end
      = take (nat ?end - nat (min start ?n)) (drop (nat (min start ?n)) xs)"
    by (simp only: py_slice_def Let_def e if_False)
  show ?thesis
  proof (cases "start \<le> ?n")
    case True
    with assms have "nat ?end - nat start = min (length (drop (nat start) xs)) (nat l)"
      by (simp add: min_def) linarith
    moreover from True have "min start ?n = start"
      by simp
    ultimately show ?thesis
      by (simp only: sl take_min_length)
  next
    case False
    then have "min start ?n = ?n" "nat ?end - nat ?n = 0" "length xs \<le> nat start"
      using assms by simp_all
    then show ?thesis
      by (simp add: sl)
  qed
qed

text \<open>
  C10. Without \<open>offset\<close>, \<open>read\<close> returns the same text whatever \<open>limit\<close> is: all
  the lines of the file, numbered from 1. With \<open>offset\<close> and a \<open>limit\<close> that is not
  negative, it returns at most \<open>limit\<close> lines, starting at line \<open>offset\<close>.
\<close>

theorem read_limit_needs_offset:
  "read readlines path None limit = read readlines path None None
   \<and> (readlines path = Inr lines \<longrightarrow>
        read readlines path None limit = numbered 1 lines)
   \<and> (readlines path = Inr lines \<and> lines \<noteq> [] \<longrightarrow>
        read readlines path None limit
          = py_join [10] (map (\<lambda>k. format_4d (int k + 1) @ ascii '' | '' @ rstrip (lines ! k))
                              [0..<length lines]))
   \<and> (readlines path = Inr lines \<and> 0 \<le> l \<longrightarrow>
        read readlines path (Some off) (Some l)
          = numbered (max 0 (off - 1) + 1)
              (take (nat l) (drop (nat (max 0 (off - 1))) lines)))"
proof (intro conjI impI)
  show "read readlines path None limit = read readlines path None None"
    by (simp add: read_def read_window_def split: sum.splits)
  show "read readlines path None limit = numbered 1 lines" if "readlines path = Inr lines"
    using that by (simp add: read_def read_window_def)
  show "read readlines path None limit
          = py_join [10] (map (\<lambda>k. format_4d (int k + 1) @ ascii '' | '' @ rstrip (lines ! k))
                              [0..<length lines])"
    if "readlines path = Inr lines \<and> lines \<noteq> []"
    using that
    by (simp add: read_def read_window_def numbered_def py_enumerate_nth comp_def add.commute)
  show "read readlines path (Some off) (Some l)
          = numbered (max 0 (off - 1) + 1)
              (take (nat l) (drop (nat (max 0 (off - 1))) lines))"
    if "readlines path = Inr lines \<and> 0 \<le> l"
  proof -
    have "py_slice lines (max 0 (off - 1)) (min (int (length lines)) (max 0 (off - 1) + l))
        = take (nat l) (drop (nat (max 0 (off - 1))) lines)"
      using that by (intro py_slice_window) simp_all
    with that show ?thesis
      by (simp add: read_def read_window_def Let_def)
  qed
qed

theorem read_limit_needs_offset_witness:
  "sample_readlines (ascii ''notes.txt'') = Inr sample_lines
   \<and> sample_lines \<noteq> [] \<and> (0::int) \<le> 1
   \<and> read sample_readlines (ascii ''notes.txt'') None (Some 1)
       = ascii ''   1 | alpha'' @ [10] @ ascii ''   2 | beta'' @ [10] @ ascii ''   3 | gamma''
   \<and> read sample_readlines (ascii ''notes.txt'') (Some 2) (Some 1) = ascii ''   2 | beta''"
proof -
  have f: "sample_readlines (ascii ''notes.txt'') = Inr sample_lines"
    by (simp add: sample_readlines_def)
  have n: "sample_lines \<noteq> []"
    by (simp add: sample_lines_def)
  have d: "format_4d 1 = ascii ''   1''" "format_4d 2 = ascii ''   2''"
    "format_4d 3 = ascii ''   3''"
    by (simp_all add: format_4d_def str_int_def digits.simps ascii_def eval_nat_numeral)
  have r: "rstrip (ascii ''alpha'' @ [10]) = ascii ''alpha''"
    "rstrip (ascii ''beta  '' @ [10]) = ascii ''beta''"
    "rstrip (ascii ''gamma'') = ascii ''gamma''"
    by (simp_all add: rstrip_def py_isspace_def ascii_def)
  have u: "[0..<length sample_lines] = [0, 1, 2]"
    by (simp add: sample_lines_def upt_rec)
  have v1: "py_join [10] (map (\<lambda>k. format_4d (int k + 1) @ ascii '' | '' @ rstrip (sample_lines ! k))
                              [0..<length sample_lines])
      = ascii ''   1 | alpha'' @ [10] @ ascii ''   2 | beta'' @ [10] @ ascii ''   3 | gamma''"
    unfolding u by (simp add: sample_lines_def d r) (simp add: ascii_def)
  have v2: "numbered (max 0 (2 - 1) + 1) (take (nat 1) (drop (nat (max 0 (2 - 1))) sample_lines))
      = ascii ''   2 | beta''"
    by (simp add: numbered_def sample_lines_def d r) (simp add: ascii_def)
  have z: "(0::int) \<le> 1"
    by simp
  from read_limit_needs_offset
      [where readlines = sample_readlines and path = "ascii ''notes.txt''"
         and lines = sample_lines and limit = "Some 1" and off = 2 and l = 1]
    f n z
  have a: "read sample_readlines (ascii ''notes.txt'') None (Some 1)
      = py_join [10] (map (\<lambda>k. format_4d (int k + 1) @ ascii '' | '' @ rstrip (sample_lines ! k))
                              [0..<length sample_lines])"
    and b: "read sample_readlines (ascii ''notes.txt'') (Some 2) (Some 1)
      = numbered (max 0 (2 - 1) + 1) (take (nat 1) (drop (nat (max 0 (2 - 1))) sample_lines))"
    by blast+
  show ?thesis
    using f n a [unfolded v1] b [unfolded v2] by simp
qed

end
